theory Spec2Isabelle
  imports Complex_Main "HOL-Library.Multiset"
begin

section \<open>FraudShield: decision orchestration\<close>

text \<open>
  A shallow embedding of the decision path of the FraudShield repository:
  \<^verbatim>\<open>config/rewards.py\<close> (reward matrix, risk classes, flag threshold),
  \<^verbatim>\<open>tools/fraud_tools.py\<close> (anomalies, pattern matching, transaction score),
  \<^verbatim>\<open>agents/transaction_analyst.py\<close> and \<^verbatim>\<open>agents/orchestrator.py\<close>.

  Python floats are modelled as \<^typ>\<open>real\<close>: the arithmetic is exact, and the binary
  rounding of a float operation is not part of the model. The scoring path of
  \<^verbatim>\<open>fraud_tools.py\<close> is given a second time on floats that may be infinite or NaN. Python dictionaries with a fixed
  set of string keys are association lists (\<open>dict\<close>) where the source iterates or looks
  keys up by name, and records of optional fields (\<open>None\<close> = key absent) where the source
  reads them with \<^verbatim>\<open>.get(key, default)\<close>. Exceptions are values: \<open>Inl e\<close> of the
  sum type \<open>error + 'a\<close>. Timestamps and elapsed times are left out.
\<close>

subsection \<open>Python helpers\<close>

datatype error =
    AttributeError string
  | ZeroDivisionError
  | OtherException string

type_synonym 'v dict = "(string \<times> 'v) list"

text \<open>\<^verbatim>\<open>d.get(k, default)\<close>\<close>

definition dict_get :: "'v dict \<Rightarrow> string \<Rightarrow> 'v \<Rightarrow> 'v" where
  "dict_get d k dflt = (case map_of d k of None \<Rightarrow> dflt | Some v \<Rightarrow> v)"

text \<open>\<^verbatim>\<open>getattr(obj, name)\<close> on an object whose attributes are the entries of \<open>obj\<close>.\<close>

definition getattr :: "'v dict \<Rightarrow> string \<Rightarrow> error + 'v" where
  "getattr obj name = (case map_of obj name of None \<Rightarrow> Inl (AttributeError name) | Some v \<Rightarrow> Inr v)"

text \<open>A field read with a default: \<^verbatim>\<open>d.get("key", default)\<close> on a record of optional fields.\<close>

definition get_or :: "'a option \<Rightarrow> 'a \<Rightarrow> 'a" where
  "get_or v dflt = (case v of None \<Rightarrow> dflt | Some x \<Rightarrow> x)"

text \<open>
  Python's \<^verbatim>\<open>round(x)\<close> rounds to the nearest integer, ties to the even one;
  \<^verbatim>\<open>round(x, 4)\<close> does so at the fourth decimal.
\<close>

definition py_round :: "real \<Rightarrow> int" where
  "py_round x =
     (let f = \<lfloor>x\<rfloor>; d = x - of_int f
      in if d < 1 / 2 then f else if 1 / 2 < d then f + 1 else if even f then f else f + 1)"

definition round4 :: "real \<Rightarrow> real" where
  "round4 x = of_int (py_round (x * 10000)) / 10000"

subsection \<open>config/rewards.py\<close>

text \<open>
  The dataclass \<^verbatim>\<open>RewardConfig\<close> and its default instance. The instance is the
  list of its attributes that hold numbers: the five dataclass fields and the property
  \<^verbatim>\<open>cost_ratio\<close>. (The methods \<^verbatim>\<open>get_reward\<close> and
  \<^verbatim>\<open>get_reward_matrix\<close> are the only other attributes of the class.)
\<close>

definition RewardConfig :: "real \<Rightarrow> real \<Rightarrow> real \<Rightarrow> real \<Rightarrow> real \<Rightarrow> real dict" where
  "RewardConfig tp tn fp fn gamma =
     [(''true_positive_reward'', tp),
      (''true_negative_reward'', tn),
      (''false_positive_penalty'', fp),
      (''false_negative_penalty'', fn),
      (''discount_factor'', gamma),
      (''cost_ratio'', \<bar>fn / fp\<bar>)]"

definition REWARD_MATRIX :: "real dict" where
  "REWARD_MATRIX = RewardConfig 10 1 (-5) (-50) (99 / 100)"

definition REWARD_CONFIG :: "real dict" where
  "REWARD_CONFIG = REWARD_MATRIX"

datatype RiskLevel = LOW | MEDIUM | HIGH | CRITICAL

fun RiskLevel_value :: "RiskLevel \<Rightarrow> string" where
  "RiskLevel_value LOW = ''low''"
| "RiskLevel_value MEDIUM = ''medium''"
| "RiskLevel_value HIGH = ''high''"
| "RiskLevel_value CRITICAL = ''critical''"

definition classify_risk :: "real \<Rightarrow> RiskLevel" where
  "classify_risk score =
     (if score \<ge> 7 / 10 then CRITICAL
      else if score \<ge> 4 / 10 then HIGH
      else if score \<ge> 2 / 10 then MEDIUM
      else LOW)"

text \<open>\<^verbatim>\<open>should_flag(score, threshold=0.3)\<close>; \<open>should_flag_default\<close> is the call with one argument.\<close>

definition should_flag :: "real \<Rightarrow> real \<Rightarrow> bool" where
  "should_flag score threshold \<longleftrightarrow> score \<ge> threshold"

definition should_flag_default :: "real \<Rightarrow> bool" where
  "should_flag_default score = should_flag score (3 / 10)"

subsection \<open>config/models.py\<close>

text \<open>
  The pattern library \<^verbatim>\<open>FRAUD_PATTERNS\<close>. Each pattern keeps its id, its indicator
  strings and its risk weight; the French display name and description of a pattern are
  left out.
\<close>

record fraud_pattern =
  fp_id :: string
  fp_indicators :: "string list"
  fp_risk_weight :: real

definition FRAUD_PATTERNS :: "fraud_pattern list" where
  "FRAUD_PATTERNS =
     [\<lparr>fp_id = ''PATTERN_001'',
        fp_indicators = [''claim_frequency_30d > 10'', ''avg_claim_amount < 100''],
        fp_risk_weight = 7 / 10\<rparr>,
      \<lparr>fp_id = ''PATTERN_002'',
        fp_indicators = [''provider_tenure < 30'', ''amount > 1000'', ''provider_risk_score > 0.5''],
        fp_risk_weight = 8 / 10\<rparr>,
      \<lparr>fp_id = ''PATTERN_003'',
        fp_indicators = [''amount > avg_claim_amount * 5''],
        fp_risk_weight = 6 / 10\<rparr>,
      \<lparr>fp_id = ''PATTERN_004'',
        fp_indicators = [''community_risk_score > 0.7'', ''shared_providers_count > 3''],
        fp_risk_weight = 9 / 10\<rparr>,
      \<lparr>fp_id = ''PATTERN_005'',
        fp_indicators = [''document_authenticity_score < 0.7'', ''metadata_anomaly_score > 0.5''],
        fp_risk_weight = 85 / 100\<rparr>]"

subsection \<open>tools/fraud_tools.py\<close>

text \<open>
  A transaction is the dictionary the tools read with \<^verbatim>\<open>transaction.get(key, default)\<close>:
  a field is \<open>None\<close> when the key is absent. The fields that only feed the serialised
  text (type, date, time, names, description, documents_count, total_30d, days_since_last)
  are left out, as are the serialised text and the placeholder embedding, which no score
  depends on.
\<close>

record transaction =
  transaction_id :: "string option"
  amount :: "real option"
  beneficiary_id :: "string option"
  provider_risk_score :: "real option"
  claims_30d :: "int option"
  tenure_months :: "int option"

text \<open>
  An anomaly is the dictionary \<^verbatim>\<open>{"type": ..., "description": ..., "severity": ...}\<close>;
  the formatted French description is left out, apart from the division it evaluates.
\<close>

record anomaly =
  an_type :: "string option"
  an_severity :: "string option"

record anomaly_result =
  anomaly_count :: nat
  ar_anomalies :: "anomaly list"
  risk_factors :: "string list"
  overall_anomaly_score :: real

text \<open>
  \<^verbatim>\<open>detect_anomalies(transaction, historical_stats=None)\<close>. The description of the
  amount anomaly formats \<^verbatim>\<open>amount/avg_amount\<close>, which raises
  \<^verbatim>\<open>ZeroDivisionError\<close> when the historical average is zero.
\<close>

definition detect_anomalies :: "transaction \<Rightarrow> real dict option \<Rightarrow> error + anomaly_result" where
  "detect_anomalies tx historical_stats =
     (let amt = get_or (amount tx) 0;
          avg_amount = (case historical_stats of
                          None \<Rightarrow> 100
                        | Some hs \<Rightarrow> if hs \<noteq> [] then dict_get hs ''avg_amount'' 100 else 100);
          claim_frequency = get_or (claims_30d tx) 0;
          provider_risk = get_or (provider_risk_score tx) 0;
          tenure = get_or (tenure_months tx) 0
      in if amt > avg_amount * 5 \<and> avg_amount = 0 then Inl ZeroDivisionError
         else
           let found =
                 (if amt > avg_amount * 5
                  then [(\<lparr>an_type = Some ''amount_spike'', an_severity = Some ''high''\<rparr>, ''amount_anomaly'')]
                  else []) @
                 (if claim_frequency > 10
                  then [(\<lparr>an_type = Some ''high_frequency'', an_severity = Some ''medium''\<rparr>, ''frequency_anomaly'')]
                  else []) @
                 (if provider_risk > 5 / 10
                  then [(\<lparr>an_type = Some ''risky_provider'', an_severity = Some ''high''\<rparr>, ''provider_risk'')]
                  else []) @
                 (if tenure < 3 \<and> amt > 500
                  then [(\<lparr>an_type = Some ''new_beneficiary_high_amount'', an_severity = Some ''medium''\<rparr>,
                         ''new_beneficiary'')]
                  else [])
           in Inr \<lparr>anomaly_count = length found,
                    ar_anomalies = map fst found,
                    risk_factors = map snd found,
                    overall_anomaly_score = min (real (length found) * (2 / 10)) 1\<rparr>)"

text \<open>
  \<^verbatim>\<open>get_transaction_history\<close> is a placeholder that returns zero statistics; of its
  result the model keeps the three numbers \<^verbatim>\<open>TransactionAnalystAgent.analyze\<close> reads.
\<close>

definition get_transaction_history :: "string \<Rightarrow> real dict" where
  "get_transaction_history bid =
     [(''transaction_count'', 0), (''total_amount'', 0), (''avg_amount'', 0)]"

text \<open>\<^verbatim>\<open>sub in s\<close> on strings.\<close>

fun str_contains :: "string \<Rightarrow> string \<Rightarrow> bool" where
  "str_contains sub [] = (sub = [])"
| "str_contains sub (c # cs) = (take (length sub) (c # cs) = sub \<or> str_contains sub cs)"

text \<open>The inner loop of \<^verbatim>\<open>match_fraud_patterns\<close>: the indicators of one pattern that match.\<close>

fun indicators_matched :: "transaction \<Rightarrow> string list \<Rightarrow> nat" where
  "indicators_matched tx [] = 0"
| "indicators_matched tx (indicator # rest) =
     (if str_contains ''claim_frequency_30d'' indicator \<and> get_or (claims_30d tx) 0 > 10 then 1
      else if str_contains ''amount'' indicator \<and> get_or (amount tx) 0 > 1000 then 1
      else if str_contains ''provider_risk_score'' indicator \<and> get_or (provider_risk_score tx) 0 > 5 / 10 then 1
      else 0) + indicators_matched tx rest"

record matched_pattern =
  pattern_id :: "string option"
  match_strength :: "real option"
  risk_weight :: "real option"

record pattern_result =
  patterns_checked :: nat
  pr_patterns_matched :: nat
  matched_patterns :: "matched_pattern list"
  combined_pattern_score :: real

text \<open>
  The outer loop, carrying \<^verbatim>\<open>matched_patterns\<close> and \<^verbatim>\<open>total_weight\<close>. The division
  \<^verbatim>\<open>indicators_matched / total_indicators\<close> is only reached with a matched indicator,
  so with \<^verbatim>\<open>total_indicators > 0\<close>.
\<close>

fun match_loop :: "transaction \<Rightarrow> fraud_pattern list \<Rightarrow> matched_pattern list \<times> real
    \<Rightarrow> matched_pattern list \<times> real" where
  "match_loop tx [] acc = acc"
| "match_loop tx (pattern # rest) (matched, total_weight) =
     (let n = indicators_matched tx (fp_indicators pattern);
          total_indicators = length (fp_indicators pattern);
          strength = real n / real total_indicators
      in if n > 0 \<and> strength \<ge> 5 / 10
         then match_loop tx rest
                (matched @ [\<lparr>pattern_id = Some (fp_id pattern), match_strength = Some strength,
                              risk_weight = Some (fp_risk_weight pattern)\<rparr>],
                 total_weight + fp_risk_weight pattern * strength)
         else match_loop tx rest (matched, total_weight))"

definition match_fraud_patterns :: "transaction \<Rightarrow> pattern_result" where
  "match_fraud_patterns tx =
     (let (matched, total_weight) = match_loop tx FRAUD_PATTERNS ([], 0)
      in \<lparr>patterns_checked = length FRAUD_PATTERNS,
          pr_patterns_matched = length matched,
          matched_patterns = matched,
          combined_pattern_score = min total_weight 1\<rparr>)"

record score_components =
  sc_anomaly_score :: real
  sc_pattern_score :: real
  sc_amount_factor :: real
  sc_provider_risk :: real

record score_result =
  sr_transaction_id :: string
  sr_fraud_probability :: real
  sr_risk_level :: string
  sr_recommended_action :: string
  sr_confidence :: real
  sr_components :: score_components
  sr_anomalies :: "anomaly list"
  sr_matched_patterns :: "matched_pattern list"

text \<open>
  \<^verbatim>\<open>score_transaction(transaction, embedding=None, structured_features=None)\<close>. The
  embedding is a placeholder and does not enter the score. Here the amount and the
  provider risk are real numbers; \<open>score_transaction_float\<close> below is the same function
  on all floats.
\<close>

definition score_transaction :: "transaction \<Rightarrow> error + score_result" where
  "score_transaction tx =
     (case detect_anomalies tx None of
        Inl e \<Rightarrow> Inl e
      | Inr anomaly_res \<Rightarrow>
          let anomaly_score = overall_anomaly_score anomaly_res;
              pattern_res = match_fraud_patterns tx;
              pattern_score = combined_pattern_score pattern_res;
              amt = get_or (amount tx) 0;
              amount_factor = min (amt / 5000) 1;
              provider_risk = get_or (provider_risk_score tx) 0;
              combined_score =
                (3 / 10) * anomaly_score + (4 / 10) * pattern_score +
                (2 / 10) * amount_factor * (5 / 10) + (1 / 10) * provider_risk;
              fraud_probability = min (max combined_score 0) 1;
              risk_level = classify_risk fraud_probability;
              should_flag_tx = should_flag_default fraud_probability
          in Inr \<lparr>sr_transaction_id = get_or (transaction_id tx) [],
                   sr_fraud_probability = round4 fraud_probability,
                   sr_risk_level = RiskLevel_value risk_level,
                   sr_recommended_action = (if should_flag_tx then ''FLAG'' else ''PASS''),
                   sr_confidence = round4 (1 - \<bar>fraud_probability - 5 / 10\<bar> * 2),
                   sr_components =
                     \<lparr>sc_anomaly_score = round4 anomaly_score,
                      sc_pattern_score = round4 pattern_score,
                      sc_amount_factor = round4 amount_factor,
                      sc_provider_risk = round4 provider_risk\<rparr>,
                   sr_anomalies = ar_anomalies anomaly_res,
                   sr_matched_patterns = matched_patterns pattern_res\<rparr>)"

subsection \<open>tools/fraud_tools.py on floats\<close>

text \<open>
  The definitions above take the numbers of a transaction to be real numbers. A Python
  float can also be an infinity or NaN, and a transaction dictionary can carry one (the
  tool server passes on whatever the caller's JSON holds). This subsection is the scoring
  path of \<^verbatim>\<open>fraud_tools.py\<close> on such values: a float is a finite number (again
  idealised as a real), an infinity or NaN. On finite numbers it is the path above.

  Comparisons with NaN are false. \<^verbatim>\<open>min(a, b)\<close> is \<^verbatim>\<open>b if b < a else a\<close> and
  \<^verbatim>\<open>max(a, b)\<close> is \<^verbatim>\<open>b if b > a else a\<close>, as the builtins compute them.
\<close>

datatype pyfloat = Fin real | PInf | NInf | NaN

fun flt :: "pyfloat \<Rightarrow> pyfloat \<Rightarrow> bool" where
  "flt NaN y = False"
| "flt x NaN = False"
| "flt (Fin a) (Fin b) = (a < b)"
| "flt (Fin a) PInf = True"
| "flt (Fin a) NInf = False"
| "flt PInf y = False"
| "flt NInf NInf = False"
| "flt NInf y = True"

fun fle :: "pyfloat \<Rightarrow> pyfloat \<Rightarrow> bool" where
  "fle NaN y = False"
| "fle x NaN = False"
| "fle (Fin a) (Fin b) = (a \<le> b)"
| "fle (Fin a) PInf = True"
| "fle (Fin a) NInf = False"
| "fle PInf PInf = True"
| "fle PInf y = False"
| "fle NInf y = True"

fun fadd :: "pyfloat \<Rightarrow> pyfloat \<Rightarrow> pyfloat" where
  "fadd NaN y = NaN"
| "fadd x NaN = NaN"
| "fadd (Fin a) (Fin b) = Fin (a + b)"
| "fadd (Fin a) y = y"
| "fadd PInf NInf = NaN"
| "fadd NInf PInf = NaN"
| "fadd x y = x"

fun fneg :: "pyfloat \<Rightarrow> pyfloat" where
  "fneg (Fin a) = Fin (- a)"
| "fneg PInf = NInf"
| "fneg NInf = PInf"
| "fneg NaN = NaN"

definition fsub :: "pyfloat \<Rightarrow> pyfloat \<Rightarrow> pyfloat" where
  "fsub x y = fadd x (fneg y)"

fun fabs :: "pyfloat \<Rightarrow> pyfloat" where
  "fabs (Fin a) = Fin \<bar>a\<bar>"
| "fabs PInf = PInf"
| "fabs NInf = PInf"
| "fabs NaN = NaN"

text \<open>The product of a float with a finite constant, and its quotient by a non-zero one.\<close>

fun fscale :: "real \<Rightarrow> pyfloat \<Rightarrow> pyfloat" where
  "fscale c (Fin a) = Fin (c * a)"
| "fscale c PInf = (if 0 < c then PInf else if c < 0 then NInf else NaN)"
| "fscale c NInf = (if 0 < c then NInf else if c < 0 then PInf else NaN)"
| "fscale c NaN = NaN"

fun fdiv :: "pyfloat \<Rightarrow> real \<Rightarrow> pyfloat" where
  "fdiv (Fin a) c = Fin (a / c)"
| "fdiv PInf c = (if 0 < c then PInf else NInf)"
| "fdiv NInf c = (if 0 < c then NInf else PInf)"
| "fdiv NaN c = NaN"

definition fmin :: "pyfloat \<Rightarrow> pyfloat \<Rightarrow> pyfloat" where
  "fmin a b = (if flt b a then b else a)"

definition fmax :: "pyfloat \<Rightarrow> pyfloat \<Rightarrow> pyfloat" where
  "fmax a b = (if flt a b then b else a)"

text \<open>\<^verbatim>\<open>round(x, 4)\<close> returns an infinity or NaN unchanged.\<close>

fun fround4 :: "pyfloat \<Rightarrow> pyfloat" where
  "fround4 (Fin a) = Fin (round4 a)"
| "fround4 x = x"

definition classify_risk_float :: "pyfloat \<Rightarrow> RiskLevel" where
  "classify_risk_float score =
     (if fle (Fin (7 / 10)) score then CRITICAL
      else if fle (Fin (4 / 10)) score then HIGH
      else if fle (Fin (2 / 10)) score then MEDIUM
      else LOW)"

definition should_flag_float :: "pyfloat \<Rightarrow> pyfloat \<Rightarrow> bool" where
  "should_flag_float score threshold \<longleftrightarrow> fle threshold score"

record float_transaction =
  ft_transaction_id :: "string option"
  ft_amount :: "pyfloat option"
  ft_beneficiary_id :: "string option"
  ft_provider_risk_score :: "pyfloat option"
  ft_claims_30d :: "int option"
  ft_tenure_months :: "int option"

text \<open>
  \<^verbatim>\<open>detect_anomalies\<close>. The amount anomaly is only found for an amount that compares
  greater, which NaN does not; its description divides by the average, and a float
  division by zero raises.
\<close>

definition detect_anomalies_float ::
    "float_transaction \<Rightarrow> pyfloat dict option \<Rightarrow> error + anomaly_result" where
  "detect_anomalies_float tx historical_stats =
     (let amt = get_or (ft_amount tx) (Fin 0);
          avg_amount = (case historical_stats of
                          None \<Rightarrow> Fin 100
                        | Some hs \<Rightarrow> if hs \<noteq> [] then dict_get hs ''avg_amount'' (Fin 100) else Fin 100);
          claim_frequency = get_or (ft_claims_30d tx) 0;
          provider_risk = get_or (ft_provider_risk_score tx) (Fin 0);
          tenure = get_or (ft_tenure_months tx) 0
      in if flt (fscale 5 avg_amount) amt \<and> avg_amount = Fin 0 then Inl ZeroDivisionError
         else
           let found =
                 (if flt (fscale 5 avg_amount) amt
                  then [(\<lparr>an_type = Some ''amount_spike'', an_severity = Some ''high''\<rparr>, ''amount_anomaly'')]
                  else []) @
                 (if claim_frequency > 10
                  then [(\<lparr>an_type = Some ''high_frequency'', an_severity = Some ''medium''\<rparr>, ''frequency_anomaly'')]
                  else []) @
                 (if flt (Fin (5 / 10)) provider_risk
                  then [(\<lparr>an_type = Some ''risky_provider'', an_severity = Some ''high''\<rparr>, ''provider_risk'')]
                  else []) @
                 (if tenure < 3 \<and> flt (Fin 500) amt
                  then [(\<lparr>an_type = Some ''new_beneficiary_high_amount'', an_severity = Some ''medium''\<rparr>,
                         ''new_beneficiary'')]
                  else [])
           in Inr \<lparr>anomaly_count = length found,
                    ar_anomalies = map fst found,
                    risk_factors = map snd found,
                    overall_anomaly_score = min (real (length found) * (2 / 10)) 1\<rparr>)"

fun indicators_matched_float :: "float_transaction \<Rightarrow> string list \<Rightarrow> nat" where
  "indicators_matched_float tx [] = 0"
| "indicators_matched_float tx (indicator # rest) =
     (if str_contains ''claim_frequency_30d'' indicator \<and> get_or (ft_claims_30d tx) 0 > 10 then 1
      else if str_contains ''amount'' indicator \<and> flt (Fin 1000) (get_or (ft_amount tx) (Fin 0)) then 1
      else if str_contains ''provider_risk_score'' indicator \<and>
              flt (Fin (5 / 10)) (get_or (ft_provider_risk_score tx) (Fin 0)) then 1
      else 0) + indicators_matched_float tx rest"

fun match_loop_float :: "float_transaction \<Rightarrow> fraud_pattern list \<Rightarrow> matched_pattern list \<times> real
    \<Rightarrow> matched_pattern list \<times> real" where
  "match_loop_float tx [] acc = acc"
| "match_loop_float tx (pattern # rest) (matched, total_weight) =
     (let n = indicators_matched_float tx (fp_indicators pattern);
          total_indicators = length (fp_indicators pattern);
          strength = real n / real total_indicators
      in if n > 0 \<and> strength \<ge> 5 / 10
         then match_loop_float tx rest
                (matched @ [\<lparr>pattern_id = Some (fp_id pattern), match_strength = Some strength,
                              risk_weight = Some (fp_risk_weight pattern)\<rparr>],
                 total_weight + fp_risk_weight pattern * strength)
         else match_loop_float tx rest (matched, total_weight))"

definition match_fraud_patterns_float :: "float_transaction \<Rightarrow> pattern_result" where
  "match_fraud_patterns_float tx =
     (let (matched, total_weight) = match_loop_float tx FRAUD_PATTERNS ([], 0)
      in \<lparr>patterns_checked = length FRAUD_PATTERNS,
          pr_patterns_matched = length matched,
          matched_patterns = matched,
          combined_pattern_score = min total_weight 1\<rparr>)"

record float_score_components =
  fc_anomaly_score :: real
  fc_pattern_score :: real
  fc_amount_factor :: pyfloat
  fc_provider_risk :: pyfloat

record float_score_result =
  fs_transaction_id :: string
  fs_fraud_probability :: pyfloat
  fs_risk_level :: string
  fs_recommended_action :: string
  fs_confidence :: pyfloat
  fs_components :: float_score_components
  fs_anomalies :: "anomaly list"
  fs_matched_patterns :: "matched_pattern list"

text \<open>
  \<^verbatim>\<open>score_transaction\<close>. The anomaly and pattern scores are finite; the amount factor
  and the provider risk are whatever floats the transaction holds.
\<close>

definition score_transaction_float :: "float_transaction \<Rightarrow> error + float_score_result" where
  "score_transaction_float tx =
     (case detect_anomalies_float tx None of
        Inl e \<Rightarrow> Inl e
      | Inr anomaly_res \<Rightarrow>
          let anomaly_score = overall_anomaly_score anomaly_res;
              pattern_res = match_fraud_patterns_float tx;
              pattern_score = combined_pattern_score pattern_res;
              amt = get_or (ft_amount tx) (Fin 0);
              amount_factor = fmin (fdiv amt 5000) (Fin 1);
              provider_risk = get_or (ft_provider_risk_score tx) (Fin 0);
              combined_score =
                fadd (fadd (fadd (Fin ((3 / 10) * anomaly_score)) (Fin ((4 / 10) * pattern_score)))
                           (fscale (5 / 10) (fscale (2 / 10) amount_factor)))
                     (fscale (1 / 10) provider_risk);
              fraud_prob = fmin (fmax combined_score (Fin 0)) (Fin 1);
              risk_level = classify_risk_float fraud_prob;
              should_flag_tx = should_flag_float fraud_prob (Fin (3 / 10))
          in Inr \<lparr>fs_transaction_id = get_or (ft_transaction_id tx) [],
                   fs_fraud_probability = fround4 fraud_prob,
                   fs_risk_level = RiskLevel_value risk_level,
                   fs_recommended_action = (if should_flag_tx then ''FLAG'' else ''PASS''),
                   fs_confidence = fround4 (fsub (Fin 1) (fscale 2 (fabs (fsub fraud_prob (Fin (5 / 10)))))),
                   fs_components =
                     \<lparr>fc_anomaly_score = round4 anomaly_score,
                      fc_pattern_score = round4 pattern_score,
                      fc_amount_factor = fround4 amount_factor,
                      fc_provider_risk = fround4 provider_risk\<rparr>,
                   fs_anomalies = ar_anomalies anomaly_res,
                   fs_matched_patterns = matched_patterns pattern_res\<rparr>)"

text \<open>A transaction of finite numbers as a transaction of floats.\<close>

definition as_float_transaction :: "transaction \<Rightarrow> float_transaction" where
  "as_float_transaction tx =
     \<lparr>ft_transaction_id = transaction_id tx,
      ft_amount = map_option Fin (amount tx),
      ft_beneficiary_id = beneficiary_id tx,
      ft_provider_risk_score = map_option Fin (provider_risk_score tx),
      ft_claims_30d = claims_30d tx,
      ft_tenure_months = tenure_months tx\<rparr>"

subsection \<open>agents/transaction_analyst.py\<close>

text \<open>
  The dictionary \<^verbatim>\<open>TransactionAnalystAgent.analyze\<close> returns, as its callers read it
  (with \<^verbatim>\<open>.get\<close>): a field is \<open>None\<close> when the key is absent.
\<close>

record transaction_analysis =
  ta_transaction_id :: "string option"
  fraud_probability :: "real option"
  ta_risk_level :: "string option"
  recommended_action :: "string option"
  anomalies :: "anomaly list option"
  ta_expected_reward :: "real option"
  ta_threshold_used :: "real option"
  ta_cost_matrix :: "real dict option"

text \<open>
  \<^verbatim>\<open>_calculate_expected_reward\<close>; the agent's \<^verbatim>\<open>self.reward_config\<close> is the
  first argument, and each \<^verbatim>\<open>self.reward_config.name\<close> is an attribute lookup.
\<close>

definition calculate_expected_reward :: "real dict \<Rightarrow> real \<Rightarrow> bool \<Rightarrow> error + real" where
  "calculate_expected_reward reward_config fraud_prob flag_decision =
     (let p_fraud = fraud_prob; p_legit = 1 - fraud_prob
      in if flag_decision
         then (case getattr reward_config ''true_positive_reward'' of
                 Inl e \<Rightarrow> Inl e
               | Inr tp \<Rightarrow>
                   (case getattr reward_config ''false_positive_penalty'' of
                      Inl e \<Rightarrow> Inl e
                    | Inr fp \<Rightarrow> Inr (p_fraud * tp + p_legit * fp)))
         else (case getattr reward_config ''false_negative_penalty'' of
                 Inl e \<Rightarrow> Inl e
               | Inr fn \<Rightarrow>
                   (case getattr reward_config ''true_negative_reward'' of
                      Inl e \<Rightarrow> Inl e
                    | Inr tn \<Rightarrow> Inr (p_fraud * fn + p_legit * tn))))"

text \<open>
  The cost matrix \<^verbatim>\<open>{"TP": ..., "TN": ..., "FP": ..., "FN": ...}\<close> that both agents
  build from the reward configuration, one attribute after the other.
\<close>

definition cost_matrix :: "real dict \<Rightarrow> error + real dict" where
  "cost_matrix reward_config =
     (case getattr reward_config ''true_positive_reward'' of
        Inl e \<Rightarrow> Inl e
      | Inr tp \<Rightarrow>
     (case getattr reward_config ''true_negative_reward'' of
        Inl e \<Rightarrow> Inl e
      | Inr tn \<Rightarrow>
     (case getattr reward_config ''false_positive_penalty'' of
        Inl e \<Rightarrow> Inl e
      | Inr fp \<Rightarrow>
     (case getattr reward_config ''false_negative_penalty'' of
        Inl e \<Rightarrow> Inl e
      | Inr fn \<Rightarrow> Inr [(''TP'', tp), (''TN'', tn), (''FP'', fp), (''FN'', fn)]))))"

text \<open>
  \<^verbatim>\<open>TransactionAnalystAgent.analyze(transaction, context, include_history=True)\<close>.
  The steps run in the source's order: history, anomalies (with the history), patterns,
  score, decision, expected reward, and then the result dictionary, whose entry
  \<^verbatim>\<open>"threshold_used": self.reward_config.flag_threshold\<close> is evaluated before the cost
  matrix.
\<close>

definition TransactionAnalystAgent_analyze ::
    "real dict \<Rightarrow> transaction \<Rightarrow> bool \<Rightarrow> error + transaction_analysis" where
  "TransactionAnalystAgent_analyze reward_config tx include_history =
     (let historical_stats =
            (if include_history
             then (let bid = get_or (beneficiary_id tx) []
                   in if bid \<noteq> []
                      then (let history = get_transaction_history bid
                            in Some [(''avg_amount'', dict_get history ''avg_amount'' 100),
                                     (''total_30d'', dict_get history ''total_amount'' 0),
                                     (''claim_count'', dict_get history ''transaction_count'' 0)])
                      else None)
             else None)
      in case detect_anomalies tx historical_stats of
           Inl e \<Rightarrow> Inl e
         | Inr anomaly_res \<Rightarrow>
      (let pattern_res = match_fraud_patterns tx
       in case score_transaction tx of
            Inl e \<Rightarrow> Inl e
          | Inr score_res \<Rightarrow>
      (let fraud_prob = sr_fraud_probability score_res;
           risk_level = classify_risk fraud_prob;
           flag_decision = should_flag_default fraud_prob
       in case calculate_expected_reward reward_config fraud_prob flag_decision of
            Inl e \<Rightarrow> Inl e
          | Inr expected_reward \<Rightarrow>
      (case getattr reward_config ''flag_threshold'' of
         Inl e \<Rightarrow> Inl e
       | Inr threshold \<Rightarrow>
      (case cost_matrix reward_config of
         Inl e \<Rightarrow> Inl e
       | Inr cm \<Rightarrow>
           Inr \<lparr>ta_transaction_id = Some (get_or (transaction_id tx) []),
                fraud_probability = Some (round4 fraud_prob),
                ta_risk_level = Some (RiskLevel_value risk_level),
                recommended_action = Some (if flag_decision then ''FLAG'' else ''PASS''),
                anomalies = Some (ar_anomalies anomaly_res),
                ta_expected_reward = Some (round4 expected_reward),
                ta_threshold_used = Some threshold,
                ta_cost_matrix = Some cm\<rparr>)))))"

record batch_item =
  bi_transaction_id :: "string option"
  bi_fraud_probability :: "real option"
  bi_risk_level :: "string option"
  bi_recommended_action :: "string option"

record batch_result =
  transactions_analyzed :: nat
  flagged_count :: nat
  pass_count :: nat
  average_fraud_probability :: real
  br_results :: "batch_item list"

text \<open>
  The loop of \<^verbatim>\<open>batch_analyze\<close>, carrying \<^verbatim>\<open>results\<close>, \<^verbatim>\<open>flagged\<close> and
  \<^verbatim>\<open>total_fraud_prob\<close>; an exception of \<^verbatim>\<open>analyze\<close> leaves the loop.
\<close>

fun batch_loop :: "real dict \<Rightarrow> transaction list \<Rightarrow> batch_item list \<times> nat \<times> real
    \<Rightarrow> error + (batch_item list \<times> nat \<times> real)" where
  "batch_loop reward_config [] acc = Inr acc"
| "batch_loop reward_config (tx # rest) (results, flagged, total_fraud_prob) =
     (case TransactionAnalystAgent_analyze reward_config tx False of
        Inl e \<Rightarrow> Inl e
      | Inr result \<Rightarrow>
          batch_loop reward_config rest
            (results @ [\<lparr>bi_transaction_id = ta_transaction_id result,
                           bi_fraud_probability = fraud_probability result,
                           bi_risk_level = ta_risk_level result,
                           bi_recommended_action = recommended_action result\<rparr>],
             (if recommended_action result = Some ''FLAG'' then flagged + 1 else flagged),
             total_fraud_prob + get_or (fraud_probability result) 0))"

definition batch_analyze :: "real dict \<Rightarrow> transaction list \<Rightarrow> error + batch_result" where
  "batch_analyze reward_config transactions =
     (case batch_loop reward_config transactions ([], 0, 0) of
        Inl e \<Rightarrow> Inl e
      | Inr (results, flagged, total_fraud_prob) \<Rightarrow>
          Inr \<lparr>transactions_analyzed = length results,
               flagged_count = flagged,
               pass_count = length results - flagged,
               average_fraud_probability =
                 (if results \<noteq> [] then round4 (total_fraud_prob / real (length results)) else 0),
               br_results = results\<rparr>)"

subsection \<open>agents/orchestrator.py: the analysis results\<close>

text \<open>
  The result dictionaries of the other four analysers, with the keys the orchestrator
  reads. As before, \<open>None\<close> is an absent key; descriptions and names, which are
  French display texts, are left out.
\<close>

record document_result =
  overall_authenticity_score :: "real option"

record pattern_detection_result =
  combined_risk_score :: "real option"
  patterns_matched :: "matched_pattern list option"

record identity_issue =
  is_type :: "string option"
  is_severity :: "string option"

record identity_result =
  verification_score :: "real option"
  issues_found :: "identity_issue list option"

record fraud_rings_result =
  detected_count :: "int option"

record network_result =
  network_risk_score :: "real option"
  fraud_rings :: "fraud_rings_result option"

text \<open>The dictionary \<^verbatim>\<open>analysis_results\<close>: one optional entry per analyser.\<close>

record analysis_results =
  document_analysis :: "document_result option"
  transaction_analysis :: "transaction_analysis option"
  pattern_detection :: "pattern_detection_result option"
  identity_verification :: "identity_result option"
  network_analysis :: "network_result option"

text \<open>\<^verbatim>\<open>d.get(key1, {}).get(key2, default)\<close>\<close>

definition get_in :: "'a option \<Rightarrow> ('a \<Rightarrow> 'b option) \<Rightarrow> 'b \<Rightarrow> 'b" where
  "get_in sub field dflt = (case sub of None \<Rightarrow> dflt | Some s \<Rightarrow> get_or (field s) dflt)"

subsection \<open>agents/orchestrator.py: the decide phase\<close>

text \<open>The dictionary \<^verbatim>\<open>scores\<close> of \<^verbatim>\<open>_decide_phase\<close>.\<close>

definition extract_scores :: "analysis_results \<Rightarrow> real dict" where
  "extract_scores r =
     [(''transaction'', get_in (transaction_analysis r) fraud_probability 0),
      (''document'', 1 - get_in (document_analysis r) overall_authenticity_score 1),
      (''pattern'', get_in (pattern_detection r) combined_risk_score 0),
      (''identity'', 1 - get_in (identity_verification r) verification_score 1),
      (''network'', get_in (network_analysis r) network_risk_score 0)]"

definition weights :: "real dict" where
  "weights =
     [(''transaction'', 30 / 100),
      (''document'', 20 / 100),
      (''pattern'', 25 / 100),
      (''identity'', 15 / 100),
      (''network'', 10 / 100)]"

text \<open>\<^verbatim>\<open>sum(scores.get(k, 0) * weights.get(k, 0) for k in weights)\<close>\<close>

definition weighted_score :: "real dict \<Rightarrow> real" where
  "weighted_score scores =
     sum_list (map (\<lambda>k. dict_get scores k 0 * dict_get weights k 0) (map fst weights))"

text \<open>\<^verbatim>\<open>fraud_probability = min(max(weighted_score, 0), 1)\<close>\<close>

definition clamp_probability :: "real \<Rightarrow> real" where
  "clamp_probability ws = min (max ws 0) 1"

text \<open>
  The cost-sensitive decision on a fraud probability: the risk level, the flag decision
  with the default threshold, and the final action.
\<close>

definition final_action :: "real \<Rightarrow> string" where
  "final_action fraud_prob =
     (let risk_level = classify_risk fraud_prob;
          flag_decision = should_flag_default fraud_prob
      in if risk_level = CRITICAL then ''BLOCK''
         else if flag_decision then ''FLAG''
         else ''PASS'')"

text \<open>\<^verbatim>\<open>sum((s - weighted_score) ** 2 for s in scores.values()) / len(scores)\<close>\<close>

definition score_variance :: "real dict \<Rightarrow> real \<Rightarrow> real" where
  "score_variance scores ws =
     sum_list (map (\<lambda>s. (s - ws) ^ 2) (map snd scores)) / real (length scores)"

definition confidence_of :: "real \<Rightarrow> real" where
  "confidence_of variance = 1 - min variance (25 / 100) * 4"

record finding =
  f_source :: string
  f_type :: string
  f_severity :: string

definition severity_order :: "nat dict" where
  "severity_order = [(''critical'', 0), (''high'', 1), (''medium'', 2), (''low'', 3)]"

text \<open>The sort key \<^verbatim>\<open>lambda f: severity_order.get(f.get("severity", "low"), 3)\<close>.\<close>

definition severity_key :: "finding \<Rightarrow> nat" where
  "severity_key f = dict_get severity_order (f_severity f) 3"

text \<open>
  The findings of \<^verbatim>\<open>_extract_key_findings\<close> in the order the source appends them,
  before the sort.
\<close>

definition collect_findings :: "analysis_results \<Rightarrow> finding list" where
  "collect_findings r =
     map (\<lambda>a. \<lparr>f_source = ''transaction'',
                f_type = get_or (an_type a) [],
                f_severity = get_or (an_severity a) ''medium''\<rparr>)
       (get_in (transaction_analysis r) anomalies []) @
     (if get_in (document_analysis r) overall_authenticity_score 1 < 7 / 10
      then [\<lparr>f_source = ''document'', f_type = ''authenticity_concern'', f_severity = ''high''\<rparr>]
      else []) @
     map (\<lambda>p. \<lparr>f_source = ''pattern'',
                f_type = get_or (pattern_id p) [],
                f_severity = (if get_or (match_strength p) 0 > 7 / 10 then ''high'' else ''medium'')\<rparr>)
       (get_in (pattern_detection r) patterns_matched []) @
     map (\<lambda>i. \<lparr>f_source = ''identity'',
                f_type = get_or (is_type i) [],
                f_severity = get_or (is_severity i) ''medium''\<rparr>)
       (get_in (identity_verification r) issues_found []) @
     (if get_in (case network_analysis r of None \<Rightarrow> None | Some n \<Rightarrow> fraud_rings n) detected_count 0 > 0
      then [\<lparr>f_source = ''network'', f_type = ''fraud_ring'', f_severity = ''critical''\<rparr>]
      else [])"

text \<open>
  \<^verbatim>\<open>findings.sort(key=...)\<close> is Python's stable sort, as \<^const>\<open>sort_key\<close> is;
  \<^verbatim>\<open>findings[:10]\<close> keeps the first ten.
\<close>

definition extract_key_findings :: "analysis_results \<Rightarrow> finding list" where
  "extract_key_findings r = take 10 (sort_key severity_key (collect_findings r))"

text \<open>
  The local variables of \<^verbatim>\<open>_decide_phase\<close>, computed before the result dictionary
  is built.
\<close>

record decide_locals =
  l_scores :: "real dict"
  l_weighted_score :: real
  l_fraud_probability :: real
  l_risk_level :: RiskLevel
  l_action :: string
  l_score_variance :: real
  l_confidence :: real
  l_key_findings :: "finding list"

definition decide_locals :: "analysis_results \<Rightarrow> decide_locals" where
  "decide_locals r =
     (let scores = extract_scores r;
          ws = weighted_score scores;
          fraud_prob = clamp_probability ws;
          variance = score_variance scores ws
      in \<lparr>l_scores = scores,
          l_weighted_score = ws,
          l_fraud_probability = fraud_prob,
          l_risk_level = classify_risk fraud_prob,
          l_action = final_action fraud_prob,
          l_score_variance = variance,
          l_confidence = confidence_of variance,
          l_key_findings = extract_key_findings r\<rparr>)"

record decision =
  action :: string
  d_fraud_probability :: real
  risk_level :: string
  confidence :: real
  component_scores :: "real dict"
  weights_used :: "real dict"
  threshold_used :: real
  key_findings :: "finding list"
  cost_matrix_applied :: "real dict"

text \<open>
  \<^verbatim>\<open>_decide_phase\<close>: the result dictionary is built entry by entry, and
  \<^verbatim>\<open>"threshold_used": self.reward_config.flag_threshold\<close> comes before the cost matrix.
\<close>

definition decide_phase :: "real dict \<Rightarrow> analysis_results \<Rightarrow> error + decision" where
  "decide_phase reward_config r =
     (let l = decide_locals r
      in case getattr reward_config ''flag_threshold'' of
           Inl e \<Rightarrow> Inl e
         | Inr threshold \<Rightarrow>
             (case cost_matrix reward_config of
                Inl e \<Rightarrow> Inl e
              | Inr cm \<Rightarrow>
                  Inr \<lparr>action = l_action l,
                       d_fraud_probability = round4 (l_fraud_probability l),
                       risk_level = RiskLevel_value (l_risk_level l),
                       confidence = round4 (l_confidence l),
                       component_scores = map (\<lambda>(k, v). (k, round4 v)) (l_scores l),
                       weights_used = weights,
                       threshold_used = threshold,
                       key_findings = l_key_findings l,
                       cost_matrix_applied = cm\<rparr>))"

subsection \<open>agents/orchestrator.py: the workflows\<close>

text \<open>
  The request dictionary. Documents and the beneficiary are dictionaries of strings.
  The case id, whose default is built from the clock, is left out.
\<close>

record request =
  req_transaction_id :: "string option"
  req_transaction :: "transaction option"
  req_documents :: "string dict list option"
  req_beneficiary :: "string dict option"
  req_transactions :: "transaction list option"

datatype WorkflowType = STANDARD | QUICK | INVESTIGATION | BATCH

fun WorkflowType_value :: "WorkflowType \<Rightarrow> string" where
  "WorkflowType_value STANDARD = ''standard''"
| "WorkflowType_value QUICK = ''quick''"
| "WorkflowType_value INVESTIGATION = ''investigation''"
| "WorkflowType_value BATCH = ''batch''"

record explanation =
  explanation_text :: "string option"
  recommendations :: "string list option"

text \<open>
  The collaborators the orchestrator calls and this development does not look into: the
  document, pattern, identity and network analysers and the explanation generator. Each
  is a function that returns its result or raises an exception; the theorems below hold
  for every such function.
\<close>

record agents =
  document_analyst_analyze :: "string dict list \<Rightarrow> error + document_result"
  pattern_detector_detect :: "transaction \<Rightarrow> error + pattern_detection_result"
  identity_verifier_verify :: "string dict \<Rightarrow> error + identity_result"
  network_analyzer_analyze :: "string \<Rightarrow> error + network_result"
  explanation_generator_explain :: "decision \<Rightarrow> analysis_results \<Rightarrow> error + explanation"
  explanation_generator_create_report :: "transaction \<Rightarrow> analysis_results \<Rightarrow> decision \<Rightarrow> error + string"

definition empty_transaction :: transaction where
  "empty_transaction =
     \<lparr>transaction_id = None, amount = None, beneficiary_id = None,
      provider_risk_score = None, claims_30d = None, tenure_months = None\<rparr>"

record intake_result =
  transaction_received :: bool
  documents_count :: nat
  beneficiary_provided :: bool
  validation_passed :: bool

text \<open>
  \<^verbatim>\<open>_intake_phase\<close>. \<^verbatim>\<open>bool(transaction)\<close> is true for a non-empty dictionary: here,
  a transaction that differs from the empty one.
\<close>

definition intake_phase :: "transaction \<Rightarrow> string dict list \<Rightarrow> string dict \<Rightarrow> error + intake_result" where
  "intake_phase tx documents beneficiary =
     Inr \<lparr>transaction_received = (tx \<noteq> empty_transaction),
          documents_count = length documents,
          beneficiary_provided = (beneficiary \<noteq> []),
          validation_passed = True\<rparr>"

text \<open>An analyser that runs only under a condition: \<^verbatim>\<open>if cond: results[key] = call\<close>.\<close>

definition call_if :: "bool \<Rightarrow> error + 'a \<Rightarrow> error + 'a option" where
  "call_if cond call = (if cond then (case call of Inl e \<Rightarrow> Inl e | Inr v \<Rightarrow> Inr (Some v)) else Inr None)"

text \<open>Truth value of an optional string, and \<^verbatim>\<open>a or b\<close> on two of them.\<close>

definition truthy :: "string option \<Rightarrow> bool" where
  "truthy v = (case v of None \<Rightarrow> False | Some s \<Rightarrow> s \<noteq> [])"

definition py_or :: "string option \<Rightarrow> string option \<Rightarrow> string option" where
  "py_or a b = (if truthy a then a else b)"

text \<open>
  \<^verbatim>\<open>_analyze_phase\<close>: the analysers are awaited one after the other, in this order.
\<close>

definition analyze_phase ::
    "agents \<Rightarrow> real dict \<Rightarrow> transaction \<Rightarrow> string dict list \<Rightarrow> string dict \<Rightarrow> error + analysis_results" where
  "analyze_phase ag reward_config tx documents beneficiary =
     (case call_if (documents \<noteq> []) (document_analyst_analyze ag documents) of
        Inl e \<Rightarrow> Inl e
      | Inr doc_result \<Rightarrow>
     (case TransactionAnalystAgent_analyze reward_config tx True of
        Inl e \<Rightarrow> Inl e
      | Inr tx_result \<Rightarrow>
     (case pattern_detector_detect ag tx of
        Inl e \<Rightarrow> Inl e
      | Inr pattern_result \<Rightarrow>
     (case call_if (beneficiary \<noteq> []) (identity_verifier_verify ag beneficiary) of
        Inl e \<Rightarrow> Inl e
      | Inr identity_res \<Rightarrow>
     (let bid = py_or (map_of beneficiary ''beneficiary_id'') (beneficiary_id tx)
      in case call_if (truthy bid) (network_analyzer_analyze ag (get_or bid [])) of
           Inl e \<Rightarrow> Inl e
         | Inr network_res \<Rightarrow>
             Inr \<lparr>document_analysis = doc_result,
                  transaction_analysis = Some tx_result,
                  pattern_detection = Some pattern_result,
                  identity_verification = identity_res,
                  network_analysis = network_res\<rparr>)))))"

text \<open>\<^verbatim>\<open>list(analysis.keys())\<close>: the analysers whose result is present, in insertion order.\<close>

definition agents_invoked :: "analysis_results \<Rightarrow> string list" where
  "agents_invoked r =
     (if document_analysis r \<noteq> None then [''document_analysis''] else []) @
     (if transaction_analysis r \<noteq> None then [''transaction_analysis''] else []) @
     (if pattern_detection r \<noteq> None then [''pattern_detection''] else []) @
     (if identity_verification r \<noteq> None then [''identity_verification''] else []) @
     (if network_analysis r \<noteq> None then [''network_analysis''] else [])"

record standard_response =
  sd_transaction_id :: string
  sd_workflow :: string
  sd_decision :: string
  sd_fraud_probability :: real
  sd_risk_level :: string
  sd_confidence :: real
  sd_agents_invoked :: "string list"
  sd_component_scores :: "real dict"
  sd_key_findings :: "finding list"
  sd_explanation :: string
  sd_recommendations :: "string list"
  sd_threshold_used :: real
  sd_cost_matrix :: "real dict"
  sd_investigation_report :: "string option"

record quick_response =
  q_transaction_id :: string
  q_decision :: string
  q_fraud_probability :: real
  q_risk_level :: string
  q_requires_full_analysis :: bool

record batch_response =
  b_transactions_processed :: nat
  b_flagged_count :: nat
  b_pass_count :: nat
  b_average_fraud_probability :: real
  b_results :: "batch_item list"

text \<open>
  What \<^verbatim>\<open>process\<close> returns: the error dictionary of its exception handler, or the
  dictionary of one of the workflows. \<open>status\<close> is its \<^verbatim>\<open>"status"\<close> entry.
\<close>

datatype response =
    Error_response error string
  | Standard_response standard_response
  | Quick_response quick_response
  | Batch_response batch_response

fun status :: "response \<Rightarrow> string" where
  "status (Error_response e tid) = ''error''"
| "status (Standard_response r) = ''success''"
| "status (Quick_response r) = ''success''"
| "status (Batch_response r) = ''success''"

text \<open>\<^verbatim>\<open>_standard_workflow\<close> with \<^verbatim>\<open>_explain_phase\<close> and \<^verbatim>\<open>_compile_response\<close>.\<close>

definition standard_workflow ::
    "agents \<Rightarrow> real dict \<Rightarrow> request \<Rightarrow> WorkflowType \<Rightarrow> error + (standard_response \<times> analysis_results \<times> decision)" where
  "standard_workflow ag reward_config req wtype =
     (let tx = get_or (req_transaction req) empty_transaction;
          documents = get_or (req_documents req) [];
          beneficiary = get_or (req_beneficiary req) []
      in case intake_phase tx documents beneficiary of
           Inl e \<Rightarrow> Inl e
         | Inr intake \<Rightarrow>
      (case analyze_phase ag reward_config tx documents beneficiary of
         Inl e \<Rightarrow> Inl e
       | Inr analysis \<Rightarrow>
      (case decide_phase reward_config analysis of
         Inl e \<Rightarrow> Inl e
       | Inr dec \<Rightarrow>
      (case explanation_generator_explain ag dec analysis of
         Inl e \<Rightarrow> Inl e
       | Inr expl \<Rightarrow>
           Inr (\<lparr>sd_transaction_id = get_or (req_transaction_id req) [],
                 sd_workflow = WorkflowType_value wtype,
                 sd_decision = action dec,
                 sd_fraud_probability = d_fraud_probability dec,
                 sd_risk_level = risk_level dec,
                 sd_confidence = confidence dec,
                 sd_agents_invoked = agents_invoked analysis,
                 sd_component_scores = component_scores dec,
                 sd_key_findings = key_findings dec,
                 sd_explanation = get_or (explanation_text expl) [],
                 sd_recommendations = get_or (recommendations expl) [],
                 sd_threshold_used = threshold_used dec,
                 sd_cost_matrix = cost_matrix_applied dec,
                 sd_investigation_report = None\<rparr>,
                analysis, dec)))))"

definition quick_workflow :: "real dict \<Rightarrow> request \<Rightarrow> error + quick_response" where
  "quick_workflow reward_config req =
     (let tx = get_or (req_transaction req) empty_transaction
      in case TransactionAnalystAgent_analyze reward_config tx False of
           Inl e \<Rightarrow> Inl e
         | Inr tx_result \<Rightarrow>
             (let fraud_prob = get_or (fraud_probability tx_result) 0;
                  rl = classify_risk fraud_prob
              in Inr \<lparr>q_transaction_id = get_or (req_transaction_id req) [],
                      q_decision = (if should_flag_default fraud_prob then ''FLAG'' else ''PASS''),
                      q_fraud_probability = fraud_prob,
                      q_risk_level = RiskLevel_value rl,
                      q_requires_full_analysis = (rl \<in> set [MEDIUM, HIGH, CRITICAL])\<rparr>))"

definition investigation_workflow :: "agents \<Rightarrow> real dict \<Rightarrow> request \<Rightarrow> error + standard_response" where
  "investigation_workflow ag reward_config req =
     (case standard_workflow ag reward_config req INVESTIGATION of
        Inl e \<Rightarrow> Inl e
      | Inr (result, analysis, dec) \<Rightarrow>
          (case explanation_generator_create_report ag
                  (get_or (req_transaction req) empty_transaction) analysis dec of
             Inl e \<Rightarrow> Inl e
           | Inr report \<Rightarrow> Inr (result\<lparr>sd_investigation_report := Some report\<rparr>)))"

definition batch_workflow :: "real dict \<Rightarrow> request \<Rightarrow> error + batch_response" where
  "batch_workflow reward_config req =
     (case batch_analyze reward_config (get_or (req_transactions req) []) of
        Inl e \<Rightarrow> Inl e
      | Inr res \<Rightarrow>
          Inr \<lparr>b_transactions_processed = transactions_analyzed res,
               b_flagged_count = flagged_count res,
               b_pass_count = pass_count res,
               b_average_fraud_probability = average_fraud_probability res,
               b_results = br_results res\<rparr>)"

text \<open>
  \<^verbatim>\<open>FraudOrchestratorAgent.process\<close>: the workflow runs inside
  \<^verbatim>\<open>try: ... except Exception as e\<close>, and the handler returns the error dictionary.
  \<open>process_with\<close> takes the reward configuration of the agents as an argument;
  \<open>process\<close> is the orchestrator as the source builds it, with \<^verbatim>\<open>REWARD_CONFIG\<close>.
\<close>

definition process_with :: "agents \<Rightarrow> real dict \<Rightarrow> request \<Rightarrow> WorkflowType \<Rightarrow> response" where
  "process_with ag reward_config req workflow =
     (let tid = get_or (req_transaction_id req) []
      in if workflow = QUICK
         then (case quick_workflow reward_config req of
                 Inl e \<Rightarrow> Error_response e tid
               | Inr r \<Rightarrow> Quick_response r)
         else if workflow = INVESTIGATION
         then (case investigation_workflow ag reward_config req of
                 Inl e \<Rightarrow> Error_response e tid
               | Inr r \<Rightarrow> Standard_response r)
         else if workflow = BATCH
         then (case batch_workflow reward_config req of
                 Inl e \<Rightarrow> Error_response e tid
               | Inr r \<Rightarrow> Batch_response r)
         else (case standard_workflow ag reward_config req workflow of
                 Inl e \<Rightarrow> Error_response e tid
               | Inr (r, analysis, dec) \<Rightarrow> Standard_response r))"

definition process :: "agents \<Rightarrow> request \<Rightarrow> WorkflowType \<Rightarrow> response" where
  "process ag req workflow = process_with ag REWARD_CONFIG req workflow"

subsection \<open>Sample inputs\<close>

text \<open>
  A transaction of 5000 with a risky provider and twelve claims in thirty days, by a
  known beneficiary; a request that carries it; and collaborators that answer with
  unremarkable results.
\<close>

definition sample_tx :: transaction where
  "sample_tx =
     \<lparr>transaction_id = Some ''T1'', amount = Some 5000, beneficiary_id = Some ''B1'',
      provider_risk_score = Some (6 / 10), claims_30d = Some 12, tenure_months = None\<rparr>"

definition sample_request :: request where
  "sample_request =
     \<lparr>req_transaction_id = Some ''T1'', req_transaction = Some sample_tx,
      req_documents = None, req_beneficiary = None, req_transactions = Some [sample_tx]\<rparr>"

definition sample_agents :: agents where
  "sample_agents =
     \<lparr>document_analyst_analyze = (\<lambda>docs. Inr \<lparr>overall_authenticity_score = Some 1\<rparr>),
      pattern_detector_detect = (\<lambda>tx. Inr \<lparr>combined_risk_score = Some 0, patterns_matched = Some []\<rparr>),
      identity_verifier_verify = (\<lambda>b. Inr \<lparr>verification_score = Some 1, issues_found = Some []\<rparr>),
      network_analyzer_analyze = (\<lambda>bid. Inr \<lparr>network_risk_score = Some 0, fraud_rings = None\<rparr>),
      explanation_generator_explain = (\<lambda>dec r. Inr \<lparr>explanation_text = None, recommendations = None\<rparr>),
      explanation_generator_create_report = (\<lambda>tx r dec. Inr [])\<rparr>"

text \<open>Analysis results: none at all; the transaction analyser alone, reporting certain fraud;
  the same with the four other analysers present and reporting no risk; and a transaction
  anomaly and a matched pattern of the same severity.\<close>

definition no_results :: analysis_results where
  "no_results =
     \<lparr>document_analysis = None, transaction_analysis = None, pattern_detection = None,
      identity_verification = None, network_analysis = None\<rparr>"

definition certain_fraud :: transaction_analysis where
  "certain_fraud =
     \<lparr>ta_transaction_id = Some ''T1'', fraud_probability = Some 1, ta_risk_level = Some ''critical'',
      recommended_action = Some ''FLAG'', anomalies = Some [], ta_expected_reward = None,
      ta_threshold_used = None, ta_cost_matrix = None\<rparr>"

definition only_transaction :: analysis_results where
  "only_transaction = no_results\<lparr>transaction_analysis := Some certain_fraud\<rparr>"

definition transaction_and_clean_others :: analysis_results where
  "transaction_and_clean_others =
     \<lparr>document_analysis = Some \<lparr>overall_authenticity_score = Some 1\<rparr>,
      transaction_analysis = Some certain_fraud,
      pattern_detection = Some \<lparr>combined_risk_score = Some 0, patterns_matched = Some []\<rparr>,
      identity_verification = Some \<lparr>verification_score = Some 1, issues_found = Some []\<rparr>,
      network_analysis = Some \<lparr>network_risk_score = Some 0, fraud_rings = None\<rparr>\<rparr>"


text \<open>A transaction with a negative amount and an empty id, and the request that carries it.\<close>

definition malformed_tx :: transaction where
  "malformed_tx = empty_transaction\<lparr>transaction_id := Some [], amount := Some (- 5)\<rparr>"

definition malformed_request :: request where
  "malformed_request =
     \<lparr>req_transaction_id = Some [], req_transaction = Some malformed_tx,
      req_documents = None, req_beneficiary = None, req_transactions = None\<rparr>"

text \<open>A transaction whose amount is NaN, and one with infinities of opposite signs.\<close>

definition nan_amount_tx :: float_transaction where
  "nan_amount_tx =
     \<lparr>ft_transaction_id = Some ''T2'', ft_amount = Some NaN, ft_beneficiary_id = None,
      ft_provider_risk_score = None, ft_claims_30d = None, ft_tenure_months = None\<rparr>"

definition infinite_tx :: float_transaction where
  "infinite_tx = nan_amount_tx\<lparr>ft_amount := Some NInf, ft_provider_risk_score := Some PInf\<rparr>"

subsection \<open>Notions of the specification\<close>

text \<open>
  The definitions of this subsection do not come from the source. They state what the
  specification describes, to compare it with what the source computes.
\<close>

text \<open>The adapters that produced a result, in the order of the weight table.\<close>

definition present_adapters :: "analysis_results \<Rightarrow> string list" where
  "present_adapters r =
     (if transaction_analysis r \<noteq> None then [''transaction''] else []) @
     (if document_analysis r \<noteq> None then [''document''] else []) @
     (if pattern_detection r \<noteq> None then [''pattern''] else []) @
     (if identity_verification r \<noteq> None then [''identity''] else []) @
     (if network_analysis r \<noteq> None then [''network''] else [])"

text \<open>
  Specification, 4.3: the weights of missing adapters are redistributed proportionally
  among the present ones, and the probability is the weighted sum over the present ones.
\<close>

definition spec_redistributed_weights :: "analysis_results \<Rightarrow> real dict" where
  "spec_redistributed_weights r =
     (let present = present_adapters r;
          total = sum_list (map (\<lambda>k. dict_get weights k 0) present)
      in map (\<lambda>k. (k, dict_get weights k 0 / total)) present)"

definition spec_redistributed_probability :: "analysis_results \<Rightarrow> real" where
  "spec_redistributed_probability r =
     sum_list (map (\<lambda>(k, w). w * dict_get (extract_scores r) k 0) (spec_redistributed_weights r))"

text \<open>
  Specification, 4.3: the confidence is \<open>1 - min(variance(scores), 0.25) * 4\<close>, the
  variance being that of the scores of the adapters that ran.
\<close>

definition variance :: "real list \<Rightarrow> real" where
  "variance xs =
     (let m = sum_list xs / real (length xs)
      in sum_list (map (\<lambda>x. (x - m) ^ 2) xs) / real (length xs))"





text \<open>\<^verbatim>\<open>d[k] = v\<close>: one adapter's contribution replaced, the others kept.\<close>

fun dict_set :: "'v dict \<Rightarrow> string \<Rightarrow> 'v \<Rightarrow> 'v dict" where
  "dict_set [] k v = [(k, v)]"
| "dict_set ((k', v') # d) k v = (if k' = k then (k, v) # d else (k', v') # dict_set d k v)"



section \<open>Theorems\<close>

text \<open>
  C5. \<^verbatim>\<open>classify_risk\<close> maps a fraud probability to a risk level by fixed cutpoints:
  a score of at least 0.7 is Critical, a score in [0.4, 0.7) is High, a score in
  [0.2, 0.4) is Medium and a score below 0.2 is Low.
\<close>

theorem classify_risk_cutpoints:
  "(7 / 10 \<le> s \<longrightarrow> classify_risk s = CRITICAL) \<and>
   (4 / 10 \<le> s \<and> s < 7 / 10 \<longrightarrow> classify_risk s = HIGH) \<and>
   (2 / 10 \<le> s \<and> s < 4 / 10 \<longrightarrow> classify_risk s = MEDIUM) \<and>
   (s < 2 / 10 \<longrightarrow> classify_risk s = LOW)"
  by (simp add: classify_risk_def)

theorem classify_risk_cutpoints_witness:
  "(7 / 10 \<le> (7 / 10 :: real) \<and> classify_risk (7 / 10) = CRITICAL) \<and>
   ((4 / 10 \<le> (1 / 2 :: real) \<and> (1 / 2 :: real) < 7 / 10) \<and> classify_risk (1 / 2) = HIGH) \<and>
   ((2 / 10 \<le> (2 / 10 :: real) \<and> (2 / 10 :: real) < 4 / 10) \<and> classify_risk (2 / 10) = MEDIUM) \<and>
   ((1 / 10 :: real) < 2 / 10 \<and> classify_risk (1 / 10) = LOW)"
  using classify_risk_cutpoints [of "7 / 10"] classify_risk_cutpoints [of "1 / 2"]
    classify_risk_cutpoints [of "2 / 10"] classify_risk_cutpoints [of "1 / 10"]
  by simp

subsection \<open>Rounding and totality\<close>

lemma py_round_bounds: "\<lfloor>y\<rfloor> \<le> py_round y \<and> py_round y \<le> \<lceil>y\<rceil>"
proof -
  have "y - of_int \<lfloor>y\<rfloor> \<ge> 1 / 2 \<Longrightarrow> \<lceil>y\<rceil> = \<lfloor>y\<rfloor> + 1"
    by (simp add: ceiling_altdef)
  then show ?thesis unfolding py_round_def Let_def by auto
qed

lemma round4_unit:
  assumes "0 \<le> x" and "x \<le> 1"
  shows "0 \<le> round4 x \<and> round4 x \<le> 1"
proof -
  have "0 \<le> \<lfloor>x * 10000\<rfloor>" using assms by simp
  then have lo: "0 \<le> py_round (x * 10000)"
    using py_round_bounds [of "x * 10000"] by linarith
  have "\<lceil>x * 10000\<rceil> \<le> 10000" using assms by (simp add: ceiling_le_iff)
  then have hi: "py_round (x * 10000) \<le> 10000"
    using py_round_bounds [of "x * 10000"] by linarith
  show ?thesis using lo hi by (simp add: round4_def)
qed

text \<open>Without a history the average is 100, so the anomaly detection cannot divide by zero.\<close>

lemma detect_anomalies_no_history: "\<exists>a. detect_anomalies tx None = Inr a"
  by (simp add: detect_anomalies_def Let_def)

lemma score_transaction_returns: "\<exists>r. score_transaction tx = Inr r"
proof -
  obtain a where "detect_anomalies tx None = Inr a"
    using detect_anomalies_no_history by blast
  then show ?thesis by (simp add: score_transaction_def Let_def)
qed

subsection \<open>The transaction score\<close>

text \<open>
  On real numbers the reported probability lies in [0,1]: the combined score is clamped
  with \<^verbatim>\<open>min(max(score, 0), 1)\<close> and then rounded to four decimals.
\<close>

lemma score_transaction_probability_bounds:
  assumes "score_transaction tx = Inr r"
  shows "0 \<le> sr_fraud_probability r \<and> sr_fraud_probability r \<le> 1"
proof -
  obtain a where a: "detect_anomalies tx None = Inr a"
    using detect_anomalies_no_history by blast
  define c where "c = (3 / 10) * overall_anomaly_score a +
      (4 / 10) * combined_pattern_score (match_fraud_patterns tx) +
      (2 / 10) * min (get_or (amount tx) 0 / 5000) 1 * (5 / 10) +
      (1 / 10) * get_or (provider_risk_score tx) 0"
  have "sr_fraud_probability r = round4 (min (max c 0) 1)"
    using assms a by (auto simp: score_transaction_def Let_def c_def)
  moreover have "0 \<le> min (max c 0) 1" and "min (max c 0) 1 \<le> 1" by simp_all
  ultimately show ?thesis using round4_unit by presburger
qed

lemma score_transaction_probability_bounds_sample:
  "\<exists>r. score_transaction sample_tx = Inr r \<and> sr_fraud_probability r = 4 / 5 \<and>
       0 \<le> sr_fraud_probability r \<and> sr_fraud_probability r \<le> 1"
proof -
  have "\<exists>r. score_transaction sample_tx = Inr r \<and> sr_fraud_probability r = 4 / 5"
    by (simp add: score_transaction_def sample_tx_def detect_anomalies_def Let_def get_or_def
        match_fraud_patterns_def FRAUD_PATTERNS_def round4_def py_round_def)
  then obtain r where r: "score_transaction sample_tx = Inr r" "sr_fraud_probability r = 4 / 5"
    by blast
  show ?thesis using r score_transaction_probability_bounds [OF r(1)] by blast
qed

subsection \<open>The transaction score on floats\<close>

text \<open>On finite numbers the float path computes what the real-valued path computes.\<close>

lemma as_float_amount:
  "get_or (ft_amount (as_float_transaction tx)) (Fin 0) = Fin (get_or (amount tx) 0)"
  by (simp add: as_float_transaction_def get_or_def split: option.splits)

lemma as_float_provider_risk:
  "get_or (ft_provider_risk_score (as_float_transaction tx)) (Fin 0) =
     Fin (get_or (provider_risk_score tx) 0)"
  by (simp add: as_float_transaction_def get_or_def split: option.splits)

lemma as_float_fields:
  "ft_claims_30d (as_float_transaction tx) = claims_30d tx"
  "ft_tenure_months (as_float_transaction tx) = tenure_months tx"
  "ft_transaction_id (as_float_transaction tx) = transaction_id tx"
  by (simp_all add: as_float_transaction_def)

lemma detect_anomalies_float_finite:
  "detect_anomalies_float (as_float_transaction tx) None = detect_anomalies tx None"
  by (simp add: detect_anomalies_float_def detect_anomalies_def Let_def
      as_float_amount as_float_provider_risk as_float_fields)

lemma indicators_matched_float_finite:
  "indicators_matched_float (as_float_transaction tx) inds = indicators_matched tx inds"
  by (induction inds) (simp_all add: as_float_amount as_float_provider_risk as_float_fields)

lemma match_loop_float_finite:
  "match_loop_float (as_float_transaction tx) ps acc = match_loop tx ps acc"
  by (induction tx ps acc rule: match_loop.induct)
    (simp_all add: indicators_matched_float_finite Let_def)

lemma match_fraud_patterns_float_finite:
  "match_fraud_patterns_float (as_float_transaction tx) = match_fraud_patterns tx"
  by (simp add: match_fraud_patterns_float_def match_fraud_patterns_def match_loop_float_finite)

lemma score_transaction_float_finite:
  assumes "score_transaction tx = Inr r"
  shows "\<exists>r'. score_transaction_float (as_float_transaction tx) = Inr r' \<and>
              fs_fraud_probability r' = Fin (sr_fraud_probability r)"
proof -
  obtain a where a: "detect_anomalies tx None = Inr a"
    using detect_anomalies_no_history by blast
  have mn: "fmin (Fin x) (Fin y) = Fin (min x y)" for x y
    by (simp add: fmin_def min_def)
  have mx: "fmax (Fin x) (Fin y) = Fin (max x y)" for x y
    by (simp add: fmax_def max_def)
  show ?thesis
    using assms a
    by (auto simp: score_transaction_float_def score_transaction_def Let_def
        detect_anomalies_float_finite match_fraud_patterns_float_finite
        as_float_amount as_float_provider_risk as_float_fields mn mx)
qed

text \<open>
  Infinities of opposite signs meet in the sum, and the score is NaN as well.
\<close>

lemma score_transaction_infinite_probability:
  "\<exists>r. score_transaction_float infinite_tx = Inr r \<and> fs_fraud_probability r = NaN"
  by (simp add: score_transaction_float_def infinite_tx_def nan_amount_tx_def
      detect_anomalies_float_def Let_def get_or_def match_fraud_patterns_float_def
      FRAUD_PATTERNS_def fmin_def fmax_def)

text \<open>
  C10. Whenever \<^verbatim>\<open>score_transaction\<close> returns a result, the reported
  \<^verbatim>\<open>fraud_probability\<close> is meant to lie in [0,1], for every transaction: the combined
  score is clamped with \<^verbatim>\<open>min(max(score, 0), 1)\<close> (``Normalize to 0-1''). The source
  misses one case. For a transaction whose amount is NaN the function returns, and the
  probability it reports is NaN, which is neither at least 0 nor at most 1: every
  comparison with NaN is false, so \<^verbatim>\<open>min\<close> and \<^verbatim>\<open>max\<close> hand their first argument
  back. On finite numbers the bound holds, by the lemmas above.
\<close>

theorem score_transaction_nan_probability:
  "score_transaction_float nan_amount_tx =
     Inr \<lparr>fs_transaction_id = ''T2'', fs_fraud_probability = NaN,
          fs_risk_level = ''low'', fs_recommended_action = ''PASS'', fs_confidence = NaN,
          fs_components =
            \<lparr>fc_anomaly_score = 0, fc_pattern_score = 0,
             fc_amount_factor = NaN, fc_provider_risk = Fin 0\<rparr>,
          fs_anomalies = [], fs_matched_patterns = []\<rparr> \<and>
   \<not> fle (Fin 0) NaN \<and> \<not> fle NaN (Fin 1)"
  by (simp add: score_transaction_float_def nan_amount_tx_def detect_anomalies_float_def Let_def
      get_or_def match_fraud_patterns_float_def FRAUD_PATTERNS_def fmin_def fmax_def fsub_def
      classify_risk_float_def should_flag_float_def round4_def py_round_def)

subsection \<open>The missing attribute\<close>

text \<open>\<^verbatim>\<open>RewardConfig\<close> defines no attribute \<^verbatim>\<open>flag_threshold\<close>.\<close>

lemma REWARD_CONFIG_no_flag_threshold:
  "getattr REWARD_CONFIG ''flag_threshold'' = Inl (AttributeError ''flag_threshold'')"
  by (simp add: getattr_def REWARD_CONFIG_def REWARD_MATRIX_def RewardConfig_def)

text \<open>
  Without the history lookup nothing fails before the result dictionary is built, so the
  exception is the \<^verbatim>\<open>AttributeError\<close> itself. (With the history, a positive amount is
  compared with a zero average, and \<^verbatim>\<open>detect_anomalies\<close> raises
  \<^verbatim>\<open>ZeroDivisionError\<close> first.)
\<close>

lemma analyze_without_history:
  "TransactionAnalystAgent_analyze REWARD_CONFIG tx False = Inl (AttributeError ''flag_threshold'')"
proof -
  obtain a where a: "detect_anomalies tx None = Inr a"
    using detect_anomalies_no_history by blast
  obtain r where r: "score_transaction tx = Inr r"
    using score_transaction_returns by blast
  have "\<exists>x. calculate_expected_reward REWARD_CONFIG p f = Inr x" for p f
    by (simp add: calculate_expected_reward_def Let_def getattr_def REWARD_CONFIG_def
        REWARD_MATRIX_def RewardConfig_def)
  then obtain x where "calculate_expected_reward REWARD_CONFIG (sr_fraud_probability r)
      (should_flag_default (sr_fraud_probability r)) = Inr x"
    by blast
  then show ?thesis
    using a r REWARD_CONFIG_no_flag_threshold
    by (simp add: TransactionAnalystAgent_analyze_def Let_def)
qed

text \<open>
  With the history lookup the placeholder history has the average 0: a positive amount of
  a transaction with a beneficiary id is an amount anomaly, and its description divides
  by that average. So the first exception is \<^verbatim>\<open>ZeroDivisionError\<close> there and the
  \<^verbatim>\<open>AttributeError\<close> everywhere else.
\<close>

lemma calculate_expected_reward_returns:
  "\<exists>x. calculate_expected_reward REWARD_CONFIG p f = Inr x"
  by (simp add: calculate_expected_reward_def Let_def getattr_def REWARD_CONFIG_def
      REWARD_MATRIX_def RewardConfig_def)

lemma detect_anomalies_zero_history_returns:
  assumes "\<not> 0 < get_or (amount tx) 0"
  shows "\<exists>a. detect_anomalies tx (Some [(''avg_amount'', 0), (''total_30d'', t), (''claim_count'', c)]) = Inr a"
  using assms by (simp add: detect_anomalies_def Let_def dict_get_def)

lemma analyze_with_history:
  "TransactionAnalystAgent_analyze REWARD_CONFIG tx True =
     Inl (if get_or (beneficiary_id tx) [] \<noteq> [] \<and> 0 < get_or (amount tx) 0
          then ZeroDivisionError else AttributeError ''flag_threshold'')"
proof -
  obtain r where r: "score_transaction tx = Inr r"
    using score_transaction_returns by blast
  obtain x where x: "calculate_expected_reward REWARD_CONFIG (sr_fraud_probability r)
      (should_flag_default (sr_fraud_probability r)) = Inr x"
    using calculate_expected_reward_returns by blast
  show ?thesis
  proof (cases "get_or (beneficiary_id tx) [] \<noteq> []")
    case False
    obtain a where a: "detect_anomalies tx None = Inr a"
      using detect_anomalies_no_history by blast
    show ?thesis
      using False a r x REWARD_CONFIG_no_flag_threshold
      by (simp add: TransactionAnalystAgent_analyze_def Let_def)
  next
    case True
    show ?thesis
    proof (cases "0 < get_or (amount tx) 0")
      case pos: True
      then show ?thesis
        using True
        by (simp add: TransactionAnalystAgent_analyze_def Let_def get_transaction_history_def
            dict_get_def detect_anomalies_def)
    next
      case npos: False
      obtain a where a: "detect_anomalies tx
          (Some [(''avg_amount'', 0), (''total_30d'', 0), (''claim_count'', 0)]) = Inr a"
        using detect_anomalies_zero_history_returns [OF npos] by blast
      have h: "dict_get (get_transaction_history b) ''avg_amount'' 100 = 0"
        "dict_get (get_transaction_history b) ''total_amount'' 0 = 0"
        "dict_get (get_transaction_history b) ''transaction_count'' 0 = 0" for b
        by (simp_all add: get_transaction_history_def dict_get_def)
      show ?thesis
        using True npos a r x REWARD_CONFIG_no_flag_threshold
        by (simp add: TransactionAnalystAgent_analyze_def Let_def h)
    qed
  qed
qed

lemma batch_analyze_nonempty:
  assumes "txs \<noteq> []"
  shows "batch_analyze REWARD_CONFIG txs = Inl (AttributeError ''flag_threshold'')"
proof -
  obtain tx rest where "txs = tx # rest" using assms by (cases txs) auto
  then show ?thesis by (simp add: batch_analyze_def analyze_without_history)
qed

lemma analyze_phase_error:
  "analyze_phase ag REWARD_CONFIG tx docs b =
     Inl (case call_if (docs \<noteq> []) (document_analyst_analyze ag docs) of
            Inl e \<Rightarrow> e
          | Inr d \<Rightarrow> if get_or (beneficiary_id tx) [] \<noteq> [] \<and> 0 < get_or (amount tx) 0
                    then ZeroDivisionError else AttributeError ''flag_threshold'')"
  by (simp add: analyze_phase_def analyze_with_history split: sum.split)

lemma standard_workflow_error:
  "standard_workflow ag REWARD_CONFIG req wt =
     Inl (case call_if (get_or (req_documents req) [] \<noteq> [])
                 (document_analyst_analyze ag (get_or (req_documents req) [])) of
            Inl e \<Rightarrow> e
          | Inr d \<Rightarrow>
              if get_or (beneficiary_id (get_or (req_transaction req) empty_transaction)) [] \<noteq> [] \<and>
                 0 < get_or (amount (get_or (req_transaction req) empty_transaction)) 0
              then ZeroDivisionError else AttributeError ''flag_threshold'')"
  by (simp add: standard_workflow_def Let_def intake_phase_def analyze_phase_error)

text \<open>
  C1, as amended. For every request processed with the quick, standard or investigation
  workflow, and for every batch request with a non-empty list of transactions,
  \<^verbatim>\<open>FraudOrchestratorAgent.process\<close> returns the error dictionary
  (\<^verbatim>\<open>"status": "error"\<close>), never a success decision. In the quick and the batch
  workflow the exception that the handler converts is the \<^verbatim>\<open>AttributeError\<close> of
  \<^verbatim>\<open>self.reward_config.flag_threshold\<close>. In the standard and the investigation
  workflow it is the exception of the document analysis if that raises; otherwise
  \<^verbatim>\<open>ZeroDivisionError\<close> when the transaction has a beneficiary id and a positive
  amount; otherwise the same \<^verbatim>\<open>AttributeError\<close>.
\<close>

theorem process_error_paths:
  assumes "workflow = QUICK \<or> workflow = STANDARD \<or> workflow = INVESTIGATION \<or>
           (workflow = BATCH \<and> get_or (req_transactions req) [] \<noteq> [])"
  shows "status (process ag req workflow) = ''error'' \<and>
    (workflow = QUICK \<or> workflow = BATCH \<longrightarrow>
       process ag req workflow =
         Error_response (AttributeError ''flag_threshold'') (get_or (req_transaction_id req) [])) \<and>
    (workflow = STANDARD \<or> workflow = INVESTIGATION \<longrightarrow>
       process ag req workflow =
         Error_response
           (case call_if (get_or (req_documents req) [] \<noteq> [])
                   (document_analyst_analyze ag (get_or (req_documents req) [])) of
              Inl e \<Rightarrow> e
            | Inr d \<Rightarrow>
                if get_or (beneficiary_id (get_or (req_transaction req) empty_transaction)) [] \<noteq> [] \<and>
                   0 < get_or (amount (get_or (req_transaction req) empty_transaction)) 0
                then ZeroDivisionError else AttributeError ''flag_threshold'')
           (get_or (req_transaction_id req) []))"
proof -
  consider (q) "workflow = QUICK" | (s) "workflow = STANDARD" | (i) "workflow = INVESTIGATION"
    | (b) "workflow = BATCH" "get_or (req_transactions req) [] \<noteq> []"
    using assms by blast
  then show ?thesis
  proof cases
    case q
    then show ?thesis
      by (simp add: process_def process_with_def quick_workflow_def Let_def analyze_without_history)
  next
    case s
    then show ?thesis
      by (simp add: process_def process_with_def Let_def standard_workflow_error)
  next
    case i
    then show ?thesis
      by (simp add: process_def process_with_def Let_def investigation_workflow_def
          standard_workflow_error)
  next
    case b
    then show ?thesis
      by (simp add: process_def process_with_def Let_def batch_workflow_def batch_analyze_nonempty)
  qed
qed

theorem process_error_paths_witness:
  "process sample_agents sample_request QUICK = Error_response (AttributeError ''flag_threshold'') ''T1'' \<and>
   process sample_agents sample_request STANDARD = Error_response ZeroDivisionError ''T1'' \<and>
   process sample_agents malformed_request INVESTIGATION = Error_response (AttributeError ''flag_threshold'') [] \<and>
   get_or (req_transactions sample_request) [] \<noteq> [] \<and>
   process sample_agents sample_request BATCH = Error_response (AttributeError ''flag_threshold'') ''T1''"
  using process_error_paths [of QUICK sample_request sample_agents]
    process_error_paths [of STANDARD sample_request sample_agents]
    process_error_paths [of INVESTIGATION malformed_request sample_agents]
    process_error_paths [of BATCH sample_request sample_agents]
  by (simp add: sample_request_def sample_tx_def malformed_request_def malformed_tx_def
      empty_transaction_def get_or_def call_if_def)

text \<open>
  C1 as stated fails: not every such path evaluates \<^verbatim>\<open>flag_threshold\<close>. The sample
  request has a beneficiary id and the amount 5000; its standard and investigation runs
  end with \<^verbatim>\<open>ZeroDivisionError\<close>, raised by the anomaly detection before the
  transaction analyser builds its result.
\<close>

theorem process_zero_division_counterexample:
  "TransactionAnalystAgent_analyze REWARD_CONFIG sample_tx True = Inl ZeroDivisionError \<and>
   process sample_agents sample_request STANDARD = Error_response ZeroDivisionError ''T1'' \<and>
   process sample_agents sample_request INVESTIGATION = Error_response ZeroDivisionError ''T1''"
  by (simp add: analyze_with_history process_def process_with_def Let_def investigation_workflow_def
      standard_workflow_error sample_request_def sample_tx_def get_or_def call_if_def)

subsection \<open>Aggregation\<close>

lemma map_of_dict_set: "map_of (dict_set d k v) = (map_of d)(k \<mapsto> v)"
  by (induction d k v rule: dict_set.induct) auto

lemma dict_get_dict_set: "dict_get (dict_set d k v) j dflt = (if j = k then v else dict_get d j dflt)"
  by (simp add: dict_get_def map_of_dict_set)

lemma weighted_score_unfold:
  "weighted_score s =
     dict_get s ''transaction'' 0 * (30 / 100) + dict_get s ''document'' 0 * (20 / 100) +
     dict_get s ''pattern'' 0 * (25 / 100) + dict_get s ''identity'' 0 * (15 / 100) +
     dict_get s ''network'' 0 * (10 / 100)"
  by (simp add: weighted_score_def weights_def dict_get_def)

lemma weighted_score_mono:
  assumes "\<And>j. dict_get s j 0 \<le> dict_get s' j 0"
  shows "weighted_score s \<le> weighted_score s'"
  using assms [of "''transaction''"] assms [of "''document''"] assms [of "''pattern''"]
    assms [of "''identity''"] assms [of "''network''"]
  unfolding weighted_score_unfold by linarith

lemma clamp_probability_mono: "a \<le> b \<Longrightarrow> clamp_probability a \<le> clamp_probability b"
  by (simp add: clamp_probability_def min_def max_def)

text \<open>
  C9. Aggregation is monotone: when the component scores of two runs of the decide phase
  differ only in one adapter's contribution, and that contribution is not lower in the
  second run, the aggregated fraud probability of the second run is not lower either.
\<close>

theorem aggregation_monotone:
  assumes "l_scores (decide_locals r') = dict_set (l_scores (decide_locals r)) k v"
    and "dict_get (l_scores (decide_locals r)) k 0 \<le> v"
  shows "l_fraud_probability (decide_locals r) \<le> l_fraud_probability (decide_locals r')"
proof -
  have s': "extract_scores r' = dict_set (extract_scores r) k v"
    using assms(1) by (simp add: decide_locals_def Let_def)
  have le: "dict_get (extract_scores r) k 0 \<le> v"
    using assms(2) by (simp add: decide_locals_def Let_def)
  have "dict_get (extract_scores r) j 0 \<le> dict_get (extract_scores r') j 0" for j
    using le by (simp add: s' dict_get_dict_set)
  then have "weighted_score (extract_scores r) \<le> weighted_score (extract_scores r')"
    by (rule weighted_score_mono)
  then show ?thesis
    by (simp add: decide_locals_def Let_def clamp_probability_mono)
qed

theorem aggregation_monotone_witness:
  "l_scores (decide_locals only_transaction) = dict_set (l_scores (decide_locals no_results)) ''transaction'' 1 \<and>
   dict_get (l_scores (decide_locals no_results)) ''transaction'' 0 \<le> (1 :: real) \<and>
   l_fraud_probability (decide_locals no_results) \<le> l_fraud_probability (decide_locals only_transaction)"
proof -
  have a: "l_scores (decide_locals only_transaction) = dict_set (l_scores (decide_locals no_results)) ''transaction'' 1"
    by (simp add: decide_locals_def Let_def extract_scores_def only_transaction_def no_results_def
        certain_fraud_def get_in_def get_or_def)
  have b: "dict_get (l_scores (decide_locals no_results)) ''transaction'' 0 \<le> (1 :: real)"
    by (simp add: decide_locals_def Let_def extract_scores_def no_results_def get_in_def dict_get_def)
  show ?thesis using a b aggregation_monotone [OF a b] by simp
qed

subsection \<open>The decision policy\<close>

text \<open>
  C4. The final action of the decide phase is \<^verbatim>\<open>BLOCK\<close> when the risk level is
  Critical; otherwise \<^verbatim>\<open>FLAG\<close> when the fraud probability is at least the flag
  threshold, whose effective default is 0.3; otherwise \<^verbatim>\<open>PASS\<close>. In particular
  every probability classified Critical is blocked, and \<^verbatim>\<open>should_flag\<close> is monotonic
  non-decreasing in the probability.
\<close>

theorem final_action_policy:
  "l_action (decide_locals r) =
     (if l_risk_level (decide_locals r) = CRITICAL then ''BLOCK''
      else if 3 / 10 \<le> l_fraud_probability (decide_locals r) then ''FLAG''
      else ''PASS'') \<and>
   (classify_risk p = CRITICAL \<longrightarrow> final_action p = ''BLOCK'') \<and>
   (should_flag_default p \<longleftrightarrow> 3 / 10 \<le> p) \<and>
   (p \<le> q \<longrightarrow> should_flag p t \<longrightarrow> should_flag q t)"
  by (simp add: decide_locals_def Let_def final_action_def should_flag_default_def should_flag_def)

theorem final_action_policy_witness:
  "l_action (decide_locals transaction_and_clean_others) = ''FLAG'' \<and>
   classify_risk (8 / 10) = CRITICAL \<and> final_action (8 / 10) = ''BLOCK'' \<and>
   final_action (3 / 10) = ''FLAG'' \<and> final_action (29 / 100) = ''PASS'' \<and>
   (2 / 10 :: real) \<le> 5 / 10 \<and> \<not> should_flag (2 / 10) (3 / 10) \<and>
   (3 / 10 :: real) \<le> 5 / 10 \<and> should_flag (3 / 10) (3 / 10) \<and> should_flag (5 / 10) (3 / 10)"
  using final_action_policy [of transaction_and_clean_others "8 / 10" "5 / 10" "3 / 10"]
    final_action_policy [of transaction_and_clean_others "3 / 10" "5 / 10" "3 / 10"]
    final_action_policy [of transaction_and_clean_others "29 / 100" "5 / 10" "3 / 10"]
  by (simp add: classify_risk_def should_flag_def final_action_def should_flag_default_def
      decide_locals_def Let_def extract_scores_def transaction_and_clean_others_def
      certain_fraud_def get_in_def get_or_def weighted_score_def weights_def dict_get_def
      clamp_probability_def)

subsection \<open>No evidence\<close>





subsection \<open>Fixed weights\<close>

text \<open>
  C3, as amended. The aggregated fraud probability is the weighted sum over all five
  adapters with the fixed weights transaction 0.30, document 0.20, pattern 0.25,
  identity 0.15 and network 0.10, which sum to 1 over the full set, clamped to [0,1].
  The weights are not redistributed: an adapter without a result keeps its weight and
  contributes the component score 0.
\<close>

theorem weighted_sum_fixed_weights:
  "l_weighted_score (decide_locals r) =
     get_in (transaction_analysis r) fraud_probability 0 * (30 / 100) +
     (1 - get_in (document_analysis r) overall_authenticity_score 1) * (20 / 100) +
     get_in (pattern_detection r) combined_risk_score 0 * (25 / 100) +
     (1 - get_in (identity_verification r) verification_score 1) * (15 / 100) +
     get_in (network_analysis r) network_risk_score 0 * (10 / 100) \<and>
   l_fraud_probability (decide_locals r) = min (max (l_weighted_score (decide_locals r)) 0) 1 \<and>
   sum_list (map snd weights) = 1 \<and>
   get_in None fraud_probability 0 = 0 \<and>
   1 - get_in None overall_authenticity_score 1 = 0 \<and>
   get_in None combined_risk_score 0 = 0 \<and>
   1 - get_in None verification_score 1 = 0 \<and>
   get_in None network_risk_score 0 = 0"
  by (simp add: decide_locals_def Let_def extract_scores_def weighted_score_def weights_def
      dict_get_def clamp_probability_def get_in_def)

text \<open>
  C3 as stated fails: when only the transaction analyser produced a result, and it reports
  the probability 1, the source aggregates 0.3, where the redistributed weights of the
  specification give 1; the weight in effect over the present adapters is 0.3, not 1; and
  the result is the one obtained when the four other adapters are present and report
  no risk.
\<close>

theorem redistribution_counterexample:
  "present_adapters only_transaction = [''transaction''] \<and>
   l_fraud_probability (decide_locals only_transaction) = 3 / 10 \<and>
   spec_redistributed_probability only_transaction = 1 \<and>
   dict_get weights ''transaction'' 0 = 3 / 10 \<and>
   l_fraud_probability (decide_locals only_transaction) =
     l_fraud_probability (decide_locals transaction_and_clean_others)"
  by (simp add: present_adapters_def only_transaction_def no_results_def certain_fraud_def
      transaction_and_clean_others_def spec_redistributed_probability_def
      spec_redistributed_weights_def decide_locals_def Let_def extract_scores_def
      weighted_score_def weights_def dict_get_def clamp_probability_def get_in_def get_or_def)

subsection \<open>Confidence\<close>





subsection \<open>Intake\<close>

text \<open>
  C6, as amended. The intake phase validates nothing: for every transaction, document
  list and beneficiary it returns a result with \<^verbatim>\<open>validation_passed\<close> true, recording
  only whether a transaction and a beneficiary were given and how many documents there
  are; it raises no error, so the later phases always run.
\<close>

theorem intake_accepts_everything:
  "\<exists>i. intake_phase tx documents beneficiary = Inr i \<and> validation_passed i \<and>
       documents_count i = length documents \<and>
       (beneficiary_provided i \<longleftrightarrow> beneficiary \<noteq> []) \<and>
       (transaction_received i \<longleftrightarrow> tx \<noteq> empty_transaction)"
  by (simp add: intake_phase_def)

text \<open>
  C6 as stated fails: a transaction with the amount -5 and an empty id passes the intake
  phase, and the run goes on to the analysis, where the exception it ends with comes from.
\<close>

theorem intake_counterexample:
  "amount malformed_tx = Some (- 5) \<and> transaction_id malformed_tx = Some [] \<and>
   intake_phase malformed_tx [] [] =
     Inr \<lparr>transaction_received = True, documents_count = 0,
          beneficiary_provided = False, validation_passed = True\<rparr> \<and>
   process sample_agents malformed_request STANDARD =
     Error_response (AttributeError ''flag_threshold'') []"
proof -
  have a: "analyze_phase sample_agents REWARD_CONFIG malformed_tx [] [] =
      Inl (AttributeError ''flag_threshold'')"
  proof -
    have "TransactionAnalystAgent_analyze REWARD_CONFIG malformed_tx True =
        Inl (AttributeError ''flag_threshold'')"
      by (simp add: TransactionAnalystAgent_analyze_def Let_def malformed_tx_def empty_transaction_def
          get_or_def detect_anomalies_def score_transaction_def calculate_expected_reward_def
          getattr_def REWARD_CONFIG_def REWARD_MATRIX_def RewardConfig_def
          should_flag_default_def should_flag_def split: sum.split)
    then show ?thesis by (simp add: analyze_phase_def call_if_def)
  qed
  have i: "intake_phase malformed_tx [] [] =
     Inr \<lparr>transaction_received = True, documents_count = 0,
          beneficiary_provided = False, validation_passed = True\<rparr>"
    by (simp add: intake_phase_def malformed_tx_def empty_transaction_def)
  have p: "process sample_agents malformed_request STANDARD =
     Error_response (AttributeError ''flag_threshold'') []"
    using a i by (simp add: process_def process_with_def standard_workflow_def Let_def
        malformed_request_def get_or_def)
  show ?thesis using i p by (simp add: malformed_tx_def)
qed

subsection \<open>Key findings\<close>





text \<open>
  A list that is sorted by severity and has, for each severity, the findings of that
  severity in the order of the gathered list, is the stable sort of the gathered list.
\<close>

lemma stable_sorted_unique:
  assumes "sorted (map severity_key ys)"
    and "\<forall>k. filter (\<lambda>f. severity_key f = k) ys = filter (\<lambda>f. severity_key f = k) xs"
  shows "ys = sort_key severity_key xs"
proof -
  have m: "mset ys = mset xs"
  proof (rule multiset_eqI)
    fix a :: finding
    have "count (mset ys) a = count (mset (filter (\<lambda>f. severity_key f = severity_key a) ys)) a"
      by simp
    also have "\<dots> = count (mset (filter (\<lambda>f. severity_key f = severity_key a) xs)) a"
      using assms(2) by simp
    also have "\<dots> = count (mset xs) a" by simp
    finally show "count (mset ys) a = count (mset xs) a" .
  qed
  have "sort_key severity_key xs = ys"
  proof (rule properties_for_sort_key [OF m _ assms(1)])
    fix k assume "k \<in> set ys"
    have "filter (\<lambda>x. severity_key k = severity_key x) ys = filter (\<lambda>f. severity_key f = severity_key k) ys"
      by (rule filter_cong) auto
    also have "\<dots> = filter (\<lambda>f. severity_key f = severity_key k) xs" using assms(2) by simp
    also have "\<dots> = filter (\<lambda>x. severity_key k = severity_key x) xs"
      by (rule filter_cong) auto
    finally show "filter (\<lambda>x. severity_key k = severity_key x) ys =
        filter (\<lambda>x. severity_key k = severity_key x) xs" .
  qed
  then show ?thesis by simp
qed



end
